theory Spec2Isabelle
  imports Complex_Main "HOL-Library.Word" "HOL-Library.AList"
begin

unbundle bit_operations_syntax

section \<open>Python values used by the collector\<close>

text \<open>
  A datagram is a Python \<open>bytes\<close> object: a list of octets. Python integers are
  unbounded (\<open>int\<close>); the values handed to a gauge are converted with \<open>float()\<close>,
  and \<open>time.time()\<close> is a float. Floats are modelled as \<open>real\<close>: the collector only
  stores them, compares them and subtracts the maximal age from the clock reading.
  The clock is an argument of every operation that reads it.
\<close>

type_synonym byte = "8 word"

text \<open>A slice \<open>data[i:j]\<close> with \<open>0 \<le> i \<le> j\<close>: it is cut short at the end of the data.\<close>

definition slice_bytes :: "'a list \<Rightarrow> nat \<Rightarrow> nat \<Rightarrow> 'a list" where
  "slice_bytes xs i j = take (j - i) (drop i xs)"

text \<open>
  \<open>int.from_bytes(bs, 'big', signed=...)\<close>. The empty byte string is 0 in both modes;
  a signed read takes the two's complement over the width \<open>8 * len(bs)\<close>.
\<close>

definition from_bytes_big :: "byte list \<Rightarrow> bool \<Rightarrow> int" where
  "from_bytes_big bs is_signed =
     (let u = foldl (\<lambda>acc b. acc * 256 + uint b) 0 bs
      in if is_signed \<and> bs \<noteq> [] \<and> 2 ^ (8 * length bs - 1) \<le> u
         then u - 2 ^ (8 * length bs) else u)"

text \<open>\<open>str(n)\<close> of an integer: its decimal digits, with a minus sign when negative.\<close>

definition digit :: "nat \<Rightarrow> char" where
  "digit d = ''0123456789'' ! d"

fun str_nat :: "nat \<Rightarrow> string" where
  "str_nat n = (if n < 10 then [digit n] else str_nat (n div 10) @ [digit (n mod 10)])"

definition str :: "int \<Rightarrow> string" where
  "str i = (if i < 0 then CHR ''-'' # str_nat (nat (- i)) else str_nat (nat i))"

section \<open>The gauge of the metrics library\<close>

text \<open>
  \<open>Gauge(name, documentation, labelnames)\<close> keeps its children in the dictionary
  \<open>_metrics\<close>, keyed by the tuple of the label values, each turned into a string.
  Both call sites of the collector pass two label values, so a key is a pair
  \<open>(ip, host)\<close>. The dictionary is an association list in insertion order, as a
  Python \<open>dict\<close> iterates; a child is represented by its value. The library's check
  of the number of label values always succeeds for two values and is left out.
\<close>

type_synonym labelvalues = "string \<times> string"

record Gauge =
  name :: string
  documentation :: string
  labelnames :: "string list"
  metrics :: "(labelvalues \<times> real) list"

definition Gauge_init :: "string \<Rightarrow> string \<Rightarrow> string list \<Rightarrow> Gauge" where
  "Gauge_init n d ls = \<lparr>name = n, documentation = d, labelnames = ls, metrics = []\<rparr>"

text \<open>\<open>g.labels(ip, host)\<close>: the child of these label values, created with value 0 when absent.\<close>

definition labels :: "Gauge \<Rightarrow> labelvalues \<Rightarrow> Gauge" where
  "labels g lv =
     (if map_of (metrics g) lv = None then g\<lparr>metrics := metrics g @ [(lv, 0)]\<rparr> else g)"

text \<open>\<open>child.set(v)\<close> on the child of \<open>lv\<close>: only its value changes.\<close>

definition set_value :: "Gauge \<Rightarrow> labelvalues \<Rightarrow> real \<Rightarrow> Gauge" where
  "set_value g lv v = g\<lparr>metrics := map (\<lambda>(k, w). if k = lv then (k, v) else (k, w)) (metrics g)\<rparr>"

text \<open>
  \<open>g.remove(ip, host)\<close>: the child is deleted from the dictionary. The cleanup only
  removes label tuples it has just read from a dictionary, where they are strings already.
\<close>

definition remove :: "Gauge \<Rightarrow> labelvalues \<Rightarrow> Gauge" where
  "remove g lv = g\<lparr>metrics := AList.delete lv (metrics g)\<rparr>"

text \<open>
  \<open>g.collect()\<close>, what the registry reads from a gauge at a scrape: one metric family
  under the gauge's name, with one sample per child, the label names paired with the
  child's label values.
\<close>

type_synonym sample = "(string \<times> string) list \<times> real"

type_synonym family = "string \<times> sample list"

definition Gauge_collect :: "Gauge \<Rightarrow> family" where
  "Gauge_collect g =
     (name g, map (\<lambda>((ip, host), v). (zip (labelnames g) [ip, host], v)) (metrics g))"

section \<open>StateCollectorMetrics\<close>

record StateCollectorMetrics =
  soc :: Gauge
  charging :: Gauge
  temperature :: Gauge
  last_contact :: Gauge

definition metric_labels :: "string list" where
  "metric_labels = [''ip'', ''host'']"

definition StateCollectorMetrics_init :: StateCollectorMetrics where
  "StateCollectorMetrics_init =
     \<lparr>soc = Gauge_init ''soc'' ''State of charge'' metric_labels,
      charging = Gauge_init ''charging'' ''Charging status'' metric_labels,
      temperature = Gauge_init ''temperature'' ''Temperature in celsius'' metric_labels,
      last_contact = Gauge_init ''last_contact'' ''Last contact'' metric_labels\<rparr>"

text \<open>The body of the second loop of \<open>cleanup_expired\<close>: one label tuple leaves all four gauges.\<close>

definition remove_labels :: "StateCollectorMetrics \<Rightarrow> labelvalues \<Rightarrow> StateCollectorMetrics" where
  "remove_labels m lv =
     m\<lparr>soc := remove (soc m) lv,
       charging := remove (charging m) lv,
       temperature := remove (temperature m) lv,
       last_contact := remove (last_contact m) lv\<rparr>"

text \<open>The first loop of \<open>cleanup_expired\<close>: the label tuples whose last contact is too old.\<close>

definition to_remove :: "StateCollectorMetrics \<Rightarrow> real \<Rightarrow> labelvalues list" where
  "to_remove m max_last_contact =
     map fst (filter (\<lambda>(lv, v). v < max_last_contact) (metrics (last_contact m)))"

definition cleanup_expired :: "StateCollectorMetrics \<Rightarrow> int \<Rightarrow> real \<Rightarrow> StateCollectorMetrics" where
  "cleanup_expired m max_age now =
     (let max_last_contact = now - of_int max_age
      in foldl remove_labels m (to_remove m max_last_contact))"

section \<open>StateReporterListener\<close>

text \<open>
  How \<open>datagramReceived\<close> ends: it returns after storing the report, it prints
  \<open>Invalid data length\<close> or \<open>Unsupported protocol version\<close> and returns, or the read
  of \<open>data[4]\<close> raises \<open>IndexError\<close>. The printing itself is not modelled.
\<close>

datatype error = Invalid_data_length | Unsupported_protocol_version | IndexError

type_synonym address = "string \<times> nat"

definition protocol_version :: "byte list \<Rightarrow> int" where
  "protocol_version data = from_bytes_big (slice_bytes data 0 1) False"

definition host_id :: "byte list \<Rightarrow> int" where
  "host_id data = from_bytes_big (slice_bytes data 1 3) False"

definition soc_value :: "byte list \<Rightarrow> int" where
  "soc_value data = from_bytes_big (slice_bytes data 3 4) False"

definition charging_value :: "byte list \<Rightarrow> error + int" where
  "charging_value data =
     (if 4 < length data then Inr (uint (data ! 4) AND 1) else Inl IndexError)"

definition temperature_value :: "byte list \<Rightarrow> int" where
  "temperature_value data = from_bytes_big (slice_bytes data 5 6) True"

text \<open>The label values of a report: \<open>address[0]\<close> and the host identifier as a string.\<close>

definition report_labels :: "byte list \<Rightarrow> address \<Rightarrow> labelvalues" where
  "report_labels data addr = (fst addr, str (host_id data))"

definition set_metrics ::
  "StateCollectorMetrics \<Rightarrow> labelvalues \<Rightarrow> int \<Rightarrow> int \<Rightarrow> int \<Rightarrow> real \<Rightarrow> StateCollectorMetrics" where
  "set_metrics m lv s c t lc =
     m\<lparr>soc := set_value (labels (soc m) lv) lv (of_int s),
       charging := set_value (labels (charging m) lv) lv (of_int c),
       temperature := set_value (labels (temperature m) lv) lv (of_int t),
       last_contact := set_value (labels (last_contact m) lv) lv lc\<rparr>"

text \<open>
  \<open>datagramReceived(data, address)\<close> at clock reading \<open>now\<close>. The result pairs the way
  the call ended (\<open>None\<close>: the report was stored) with the metrics afterwards.
\<close>

definition datagramReceived ::
  "StateCollectorMetrics \<Rightarrow> byte list \<Rightarrow> address \<Rightarrow> real \<Rightarrow> error option \<times> StateCollectorMetrics" where
  "datagramReceived m data addr now =
     (if length data < 1 then (Some Invalid_data_length, m)
      else if protocol_version data = 1 then
        (case charging_value data of
           Inl e \<Rightarrow> (Some e, m)
         | Inr c \<Rightarrow>
             (None, set_metrics m (report_labels data addr)
                      (soc_value data) c (temperature_value data) now))
      else (Some Unsupported_protocol_version, m))"

section \<open>Runs of the collector\<close>

text \<open>
  The reactor is single-threaded: it delivers datagrams and fires the cleanup timer one
  after the other. A run is the list of these events, each with its clock reading.
\<close>

datatype event = Datagram "byte list" address real | Cleanup int real

fun step :: "StateCollectorMetrics \<Rightarrow> event \<Rightarrow> StateCollectorMetrics" where
  "step m (Datagram data addr now) = snd (datagramReceived m data addr now)"
| "step m (Cleanup max_age now) = cleanup_expired m max_age now"

definition run :: "event list \<Rightarrow> StateCollectorMetrics" where
  "run evs = foldl step StateCollectorMetrics_init evs"

section \<open>Observing the metrics\<close>

text \<open>The value a gauge exposes for a label tuple, if it has that child.\<close>

definition gauge_value :: "Gauge \<Rightarrow> labelvalues \<Rightarrow> real option" where
  "gauge_value g lv = map_of (metrics g) lv"

definition gauge_keys :: "Gauge \<Rightarrow> labelvalues list" where
  "gauge_keys g = map fst (metrics g)"

text \<open>The four exposed fields of a device: state of charge, charging, temperature, last contact.\<close>

definition device_state ::
  "StateCollectorMetrics \<Rightarrow> labelvalues \<Rightarrow> real option \<times> real option \<times> real option \<times> real option" where
  "device_state m lv =
     (gauge_value (soc m) lv, gauge_value (charging m) lv,
      gauge_value (temperature m) lv, gauge_value (last_contact m) lv)"

text \<open>
  The four values \<open>datagramReceived\<close> sets for an accepted datagram: the state of charge,
  \<open>data[4] & 1\<close>, the temperature, and the clock reading as last contact.
\<close>

definition reported_state ::
  "byte list \<Rightarrow> real \<Rightarrow> real option \<times> real option \<times> real option \<times> real option" where
  "reported_state data now =
     (Some (of_int (soc_value data)), Some (of_int (uint (data ! 4) AND 1)),
      Some (of_int (temperature_value data)), Some now)"

text \<open>A device is expired at a cleanup when its last contact is strictly before the cutoff.\<close>

definition expired :: "StateCollectorMetrics \<Rightarrow> int \<Rightarrow> real \<Rightarrow> labelvalues \<Rightarrow> bool" where
  "expired m max_age now lv =
     (case gauge_value (last_contact m) lv of None \<Rightarrow> False | Some v \<Rightarrow> v < now - of_int max_age)"

text \<open>A Python dictionary holds each key once.\<close>

definition dict_keys_unique :: "StateCollectorMetrics \<Rightarrow> bool" where
  "dict_keys_unique m =
     (distinct (gauge_keys (soc m)) \<and> distinct (gauge_keys (charging m)) \<and>
      distinct (gauge_keys (temperature m)) \<and> distinct (gauge_keys (last_contact m)))"

text \<open>The four gauges hold the same label tuples, in the same order.\<close>

definition keys_aligned :: "StateCollectorMetrics \<Rightarrow> bool" where
  "keys_aligned m =
     (gauge_keys (soc m) = gauge_keys (last_contact m) \<and>
      gauge_keys (charging m) = gauge_keys (last_contact m) \<and>
      gauge_keys (temperature m) = gauge_keys (last_contact m))"

text \<open>
  The scrape. \<open>MetricsResource()\<close> is built without a registry, so it serves the
  process-wide default registry. Each \<open>Gauge(...)\<close> of \<open>StateCollectorMetrics\<close> registers
  itself there, behind the collectors the metrics library registers by itself when it is
  imported (process, platform, garbage collector). Those collectors are not code of the
  collector; the families they yield are the parameter \<open>library_families\<close>.
\<close>

definition registry_collect :: "family list \<Rightarrow> StateCollectorMetrics \<Rightarrow> family list" where
  "registry_collect library_families m =
     library_families @ map Gauge_collect [soc m, charging m, temperature m, last_contact m]"

section \<open>Auxiliary lemmas\<close>

declare str_nat.simps [simp del]

subsection \<open>Decimal strings\<close>

lemma str_nat_nonempty: "str_nat n \<noteq> []"
  by (subst str_nat.simps) simp

lemma length_str_nat: "length (str_nat n) = 1 \<longleftrightarrow> n < 10"
proof (cases "n < 10")
  case True
  then show ?thesis by (subst str_nat.simps) simp
next
  case False
  then have "length (str_nat n) = Suc (length (str_nat (n div 10)))"
    by (subst str_nat.simps) simp
  with False str_nat_nonempty [of "n div 10"] show ?thesis by simp
qed

lemma digit_inj: "a < 10 \<Longrightarrow> b < 10 \<Longrightarrow> digit a = digit b \<Longrightarrow> a = b"
proof -
  assume a: "a < 10" and b: "b < 10" and e: "digit a = digit b"
  have d: "distinct ''0123456789''" by simp
  have "length ''0123456789'' = 10" by simp
  with a b e d show ?thesis
    unfolding digit_def by (metis nth_eq_iff_index_eq)
qed

lemma str_nat_inj: "str_nat a = str_nat b \<Longrightarrow> a = b"
proof (induction a arbitrary: b rule: str_nat.induct)
  case (1 n)
  show ?case
  proof (cases "n < 10")
    case True
    then have "length (str_nat n) = 1" using length_str_nat [of n] by blast
    with "1.prems" have b: "b < 10" using length_str_nat [of b] by simp
    from True b "1.prems" have "digit n = digit b"
      by (subst (asm) str_nat.simps, subst (asm) (2) str_nat.simps) simp
    with True b show ?thesis by (rule digit_inj)
  next
    case False
    then have "length (str_nat n) \<noteq> 1" using length_str_nat [of n] by blast
    with "1.prems" have b: "\<not> b < 10" using length_str_nat [of b] by simp
    from False b "1.prems" have "str_nat (n div 10) = str_nat (b div 10) \<and> digit (n mod 10) = digit (b mod 10)"
      by (subst (asm) str_nat.simps, subst (asm) (2) str_nat.simps) simp
    then have "n div 10 = b div 10" and "n mod 10 = b mod 10"
      using "1.IH" [OF False] digit_inj [of "n mod 10" "b mod 10"] by simp_all
    then show ?thesis by (metis div_mult_mod_eq)
  qed
qed

lemma str_inj_nonneg: "0 \<le> i \<Longrightarrow> 0 \<le> j \<Longrightarrow> str i = str j \<Longrightarrow> i = j"
  by (auto simp: str_def dest: str_nat_inj)

subsection \<open>One gauge\<close>

lemma map_of_set_entry:
  "map_of (map (\<lambda>(k, w). if k = lv then (k, v) else (k, w)) al) k' =
     (if k' = lv then map_option (\<lambda>_. v) (map_of al k') else map_of al k')"
  by (induction al) auto

lemma gauge_keys_set_value: "gauge_keys (set_value g lv v) = gauge_keys g"
  by (simp add: gauge_keys_def set_value_def comp_def case_prod_beta if_distrib cong: if_cong)

lemma gauge_keys_labels:
  "gauge_keys (labels g lv) = (if lv \<in> set (gauge_keys g) then gauge_keys g else gauge_keys g @ [lv])"
  by (auto simp: gauge_keys_def labels_def map_of_eq_None_iff)

lemma gauge_value_labels:
  "gauge_value (labels g lv) k =
     (if k = lv \<and> gauge_value g lv = None then Some 0 else gauge_value g k)"
  by (auto simp: gauge_value_def labels_def map_add_def split: option.splits)

lemma gauge_value_set_value:
  "gauge_value (set_value g lv v) k =
     (if k = lv then map_option (\<lambda>_. v) (gauge_value g k) else gauge_value g k)"
  by (simp add: gauge_value_def set_value_def map_of_set_entry)

lemma gauge_value_labels_set:
  "gauge_value (set_value (labels g lv) lv v) k = (if k = lv then Some v else gauge_value g k)"
  by (auto simp: gauge_value_set_value gauge_value_labels)

lemma gauge_keys_labels_set:
  "gauge_keys (set_value (labels g lv) lv v) =
     (if lv \<in> set (gauge_keys g) then gauge_keys g else gauge_keys g @ [lv])"
  by (simp add: gauge_keys_set_value gauge_keys_labels)

lemma gauge_keys_remove: "gauge_keys (remove g lv) = removeAll lv (gauge_keys g)"
  by (simp add: gauge_keys_def remove_def delete_keys)

lemma gauge_value_remove:
  "gauge_value (remove g lv) k = (if k = lv then None else gauge_value g k)"
  by (simp add: gauge_value_def remove_def delete_conv')

lemma static_set_value [simp]:
  "name (set_value g lv v) = name g" "labelnames (set_value g lv v) = labelnames g"
  "documentation (set_value g lv v) = documentation g"
  by (simp_all add: set_value_def)

lemma static_labels [simp]:
  "name (labels g lv) = name g" "labelnames (labels g lv) = labelnames g"
  "documentation (labels g lv) = documentation g"
  by (simp_all add: labels_def)

lemma static_remove [simp]:
  "name (remove g lv) = name g" "labelnames (remove g lv) = labelnames g"
  "documentation (remove g lv) = documentation g"
  by (simp_all add: remove_def)

subsection \<open>The two loops of the cleanup\<close>

lemma metrics_remove: "metrics (remove g lv) = filter (\<lambda>e. fst e \<noteq> lv) (metrics g)"
proof -
  have "(\<lambda>(k', _ :: real). lv \<noteq> k') = (\<lambda>e. fst e \<noteq> lv)"
    by auto
  then show ?thesis
    by (simp add: remove_def AList.delete_eq)
qed

lemma remove_filter: "remove g lv = g\<lparr>metrics := filter (\<lambda>e. fst e \<noteq> lv) (metrics g)\<rparr>"
  using metrics_remove [of g lv] by (simp add: remove_def)

lemma foldl_remove:
  "foldl remove g ks = g\<lparr>metrics := filter (\<lambda>e. fst e \<notin> set ks) (metrics g)\<rparr>"
  by (induction ks arbitrary: g) (simp_all add: remove_filter conj_commute)

lemma gauges_foldl_remove_labels:
  "soc (foldl remove_labels m ks) = foldl remove (soc m) ks"
  "charging (foldl remove_labels m ks) = foldl remove (charging m) ks"
  "temperature (foldl remove_labels m ks) = foldl remove (temperature m) ks"
  "last_contact (foldl remove_labels m ks) = foldl remove (last_contact m) ks"
  by (induction ks arbitrary: m) (simp_all add: remove_labels_def)

lemma gauges_cleanup_expired:
  "soc (cleanup_expired m max_age now) = foldl remove (soc m) (to_remove m (now - of_int max_age))"
  "charging (cleanup_expired m max_age now) = foldl remove (charging m) (to_remove m (now - of_int max_age))"
  "temperature (cleanup_expired m max_age now) = foldl remove (temperature m) (to_remove m (now - of_int max_age))"
  "last_contact (cleanup_expired m max_age now) = foldl remove (last_contact m) (to_remove m (now - of_int max_age))"
  by (simp_all add: cleanup_expired_def gauges_foldl_remove_labels)

lemma gauge_value_foldl_remove:
  "gauge_value (foldl remove g ks) k = (if k \<in> set ks then None else gauge_value g k)"
  by (induction ks arbitrary: g) (simp_all add: gauge_value_remove)

lemma gauge_keys_foldl_remove:
  "gauge_keys (foldl remove g ks) = filter (\<lambda>k. k \<notin> set ks) (gauge_keys g)"
  by (simp add: foldl_remove gauge_keys_def filter_map comp_def)

lemma to_remove_iff:
  assumes "distinct (gauge_keys (last_contact m))"
  shows "k \<in> set (to_remove m c) \<longleftrightarrow> (\<exists>v. gauge_value (last_contact m) k = Some v \<and> v < c)"
  using assms by (force simp: to_remove_def gauge_value_def gauge_keys_def)

lemma to_remove_expired:
  "distinct (gauge_keys (last_contact m)) \<Longrightarrow>
   k \<in> set (to_remove m (now - of_int max_age)) \<longleftrightarrow> expired m max_age now k"
  by (auto simp: to_remove_iff expired_def split: option.splits)

lemma to_remove_cleanup_expired:
  "to_remove (cleanup_expired m max_age now) (now - of_int max_age) = []"
  by (auto simp: to_remove_def gauges_cleanup_expired foldl_remove filter_empty_conv image_iff)

subsection \<open>Reading the fields\<close>

lemma protocol_version_Cons: "protocol_version (b # bs) = uint b"
  by (simp add: protocol_version_def slice_bytes_def from_bytes_big_def)

lemma protocol_version_one: "protocol_version (b # bs) = 1 \<longleftrightarrow> b = 1"
  using word_uint_eq_iff [of b 1] by (simp add: protocol_version_Cons)

lemma uint_byte_bound: "uint (b :: byte) < 256"
  using uint_bounded [of b] by simp

lemma foldl_bytes_bound:
  "0 \<le> a \<Longrightarrow>
   0 \<le> foldl (\<lambda>acc b. acc * 256 + uint (b :: byte)) a bs \<and>
   foldl (\<lambda>acc b. acc * 256 + uint b) a bs < (a + 1) * 256 ^ length bs"
proof (induction bs arbitrary: a)
  case Nil
  then show ?case by simp
next
  case (Cons b bs)
  let ?a = "a * 256 + uint b"
  have a: "0 \<le> ?a" using Cons.prems by simp
  have le: "(?a + 1) * 256 ^ length bs \<le> ((a + 1) * 256) * 256 ^ length bs"
    using uint_byte_bound [of b] by (intro mult_right_mono) simp_all
  have eq: "((a + 1) * 256) * 256 ^ length bs = (a + 1) * 256 ^ length (b # bs)"
    by simp
  from Cons.IH [OF a] have "foldl (\<lambda>acc b. acc * 256 + uint b) ?a bs < (?a + 1) * 256 ^ length bs"
    by blast
  also note le
  also note eq
  finally show ?case
    using Cons.IH [OF a] by simp
qed

lemma from_bytes_big_unsigned_range:
  "0 \<le> from_bytes_big bs False \<and> from_bytes_big bs False < 256 ^ length bs"
  using foldl_bytes_bound [of 0 bs] by (simp add: from_bytes_big_def)

lemma host_id_range: "0 \<le> host_id data \<and> host_id data < 65536"
proof -
  have "length (slice_bytes data 1 3) \<le> 2"
    by (simp add: slice_bytes_def)
  then have "(256 :: int) ^ length (slice_bytes data 1 3) \<le> 256 ^ 2"
    by (intro power_increasing) simp_all
  with from_bytes_big_unsigned_range [of "slice_bytes data 1 3"] show ?thesis
    by (simp add: host_id_def)
qed

lemma report_labels_eq_iff:
  "report_labels d1 a1 = report_labels d2 a2 \<longleftrightarrow> fst a1 = fst a2 \<and> host_id d1 = host_id d2"
  using host_id_range [of d1] host_id_range [of d2]
  by (auto simp: report_labels_def dest: str_inj_nonneg)

subsection \<open>One datagram\<close>

lemma datagramReceived_None:
  "datagramReceived m data addr now = (None, m') \<longleftrightarrow>
     4 < length data \<and> hd data = 1 \<and>
     m' = set_metrics m (report_labels data addr) (soc_value data)
            (uint (data ! 4) AND 1) (temperature_value data) now"
  by (cases data) (auto simp: datagramReceived_def charging_value_def protocol_version_one)

lemma device_state_set_metrics:
  "device_state (set_metrics m lv s c t lc) k =
     (if k = lv then (Some (of_int s), Some (of_int c), Some (of_int t), Some lc)
      else device_state m k)"
  by (simp add: device_state_def set_metrics_def gauge_value_labels_set)

lemma gauge_keys_set_metrics:
  "gauge_keys (soc (set_metrics m lv s c t lc)) =
     (if lv \<in> set (gauge_keys (soc m)) then gauge_keys (soc m) else gauge_keys (soc m) @ [lv])"
  "gauge_keys (charging (set_metrics m lv s c t lc)) =
     (if lv \<in> set (gauge_keys (charging m)) then gauge_keys (charging m) else gauge_keys (charging m) @ [lv])"
  "gauge_keys (temperature (set_metrics m lv s c t lc)) =
     (if lv \<in> set (gauge_keys (temperature m)) then gauge_keys (temperature m) else gauge_keys (temperature m) @ [lv])"
  "gauge_keys (last_contact (set_metrics m lv s c t lc)) =
     (if lv \<in> set (gauge_keys (last_contact m)) then gauge_keys (last_contact m) else gauge_keys (last_contact m) @ [lv])"
  by (simp_all add: set_metrics_def gauge_keys_labels_set)

lemma device_state_datagramReceived:
  assumes "datagramReceived m data addr now = (None, m')"
  shows "device_state m' lv =
           (if lv = report_labels data addr then reported_state data now else device_state m lv)"
  using assms by (simp add: datagramReceived_None device_state_set_metrics reported_state_def)

lemma datagramReceived_accept:
  "4 < length data \<Longrightarrow> hd data = 1 \<Longrightarrow>
   datagramReceived m data addr now =
     (None, set_metrics m (report_labels data addr) (soc_value data)
              (uint (data ! 4) AND 1) (temperature_value data) now)"
  by (simp add: datagramReceived_None)

lemma datagramReceived_IndexError:
  "length rest < 4 \<Longrightarrow> datagramReceived m (1 # rest) addr now = (Some IndexError, m)"
  by (simp add: datagramReceived_def protocol_version_Cons charging_value_def)

lemma count_list_distinct: "distinct xs \<Longrightarrow> x \<in> set xs \<Longrightarrow> count_list xs x = 1"
  by (induction xs) auto

lemma dict_keys_unique_set_metrics:
  "dict_keys_unique m \<Longrightarrow> dict_keys_unique (set_metrics m lv s c t lc)"
  by (simp add: dict_keys_unique_def gauge_keys_set_metrics)

lemma labels_in_set_metrics:
  "lv \<in> set (gauge_keys (soc (set_metrics m lv s c t lc)))"
  "lv \<in> set (gauge_keys (charging (set_metrics m lv s c t lc)))"
  "lv \<in> set (gauge_keys (temperature (set_metrics m lv s c t lc)))"
  "lv \<in> set (gauge_keys (last_contact (set_metrics m lv s c t lc)))"
  by (simp_all add: gauge_keys_set_metrics)

lemma dict_keys_unique_datagramReceived:
  "dict_keys_unique m \<Longrightarrow> dict_keys_unique (snd (datagramReceived m data addr now))"
  by (cases "fst (datagramReceived m data addr now)")
     (auto simp: datagramReceived_def dict_keys_unique_set_metrics split: if_splits sum.splits)

subsection \<open>Invariants of a run\<close>

lemma keys_aligned_set_metrics:
  "keys_aligned m \<Longrightarrow> keys_aligned (set_metrics m lv s c t lc)"
  by (simp add: keys_aligned_def gauge_keys_set_metrics)

lemma keys_aligned_datagramReceived:
  "keys_aligned m \<Longrightarrow> keys_aligned (snd (datagramReceived m data addr now))"
  by (auto simp: datagramReceived_def keys_aligned_set_metrics split: sum.splits)

lemma keys_aligned_cleanup_expired:
  "keys_aligned m \<Longrightarrow> keys_aligned (cleanup_expired m max_age now)"
  by (simp add: keys_aligned_def gauges_cleanup_expired gauge_keys_foldl_remove)

lemma keys_aligned_step: "keys_aligned m \<Longrightarrow> keys_aligned (step m ev)"
  by (cases ev) (simp_all add: keys_aligned_datagramReceived keys_aligned_cleanup_expired)

lemma keys_aligned_foldl_step: "keys_aligned m \<Longrightarrow> keys_aligned (foldl step m evs)"
  by (induction evs arbitrary: m) (simp_all add: keys_aligned_step)

lemma keys_aligned_init: "keys_aligned StateCollectorMetrics_init"
  by (simp add: keys_aligned_def gauge_keys_def StateCollectorMetrics_init_def Gauge_init_def)

lemma gauge_value_None_iff: "gauge_value g lv = None \<longleftrightarrow> lv \<notin> set (gauge_keys g)"
  by (simp add: gauge_value_def gauge_keys_def map_of_eq_None_iff)

text \<open>Every run keeps each key once in each dictionary.\<close>

lemma dict_keys_unique_cleanup_expired:
  "dict_keys_unique m \<Longrightarrow> dict_keys_unique (cleanup_expired m max_age now)"
  by (simp add: dict_keys_unique_def gauges_cleanup_expired gauge_keys_foldl_remove)

lemma dict_keys_unique_step: "dict_keys_unique m \<Longrightarrow> dict_keys_unique (step m ev)"
  by (cases ev) (simp_all add: dict_keys_unique_datagramReceived dict_keys_unique_cleanup_expired)

lemma dict_keys_unique_foldl_step: "dict_keys_unique m \<Longrightarrow> dict_keys_unique (foldl step m evs)"
  by (induction evs arbitrary: m) (simp_all add: dict_keys_unique_step)

lemma dict_keys_unique_run: "dict_keys_unique (run evs)"
proof -
  have "dict_keys_unique StateCollectorMetrics_init"
    by (simp add: dict_keys_unique_def gauge_keys_def StateCollectorMetrics_init_def Gauge_init_def)
  then show ?thesis
    unfolding run_def by (rule dict_keys_unique_foldl_step)
qed

text \<open>
  A later cleanup removes nothing either, as long as no remaining entry has crossed the
  cutoff between the two clock readings.
\<close>

lemma cleanup_expired_later:
  assumes "\<And>lv v. (lv, v) \<in> set (metrics (last_contact m)) \<Longrightarrow>
             v < now - of_int max_age \<or> now' - of_int max_age \<le> v"
  shows "cleanup_expired (cleanup_expired m max_age now) max_age now' = cleanup_expired m max_age now"
proof -
  have "to_remove (cleanup_expired m max_age now) (now' - of_int max_age) = []"
    using assms
    by (fastforce simp: to_remove_def gauges_cleanup_expired foldl_remove filter_empty_conv image_iff)
  then show ?thesis
    by (simp add: cleanup_expired_def [of "cleanup_expired m max_age now"])
qed

text \<open>
  A cleanup changes nothing exactly when no entry has its last contact before the cutoff.
\<close>

lemma cleanup_expired_id_iff:
  "cleanup_expired m max_age now = m \<longleftrightarrow>
     list_all (\<lambda>(lv, v). now - of_int max_age \<le> v) (metrics (last_contact m))"
proof
  assume "cleanup_expired m max_age now = m"
  then have "metrics (last_contact (cleanup_expired m max_age now)) = metrics (last_contact m)"
    by simp
  then have "filter (\<lambda>e. fst e \<notin> set (to_remove m (now - of_int max_age))) (metrics (last_contact m)) =
      metrics (last_contact m)"
    by (simp add: gauges_cleanup_expired foldl_remove)
  then have "\<forall>e \<in> set (metrics (last_contact m)). fst e \<notin> set (to_remove m (now - of_int max_age))"
    by (simp add: filter_id_conv)
  then show "list_all (\<lambda>(lv, v). now - of_int max_age \<le> v) (metrics (last_contact m))"
    by (force simp: to_remove_def list_all_iff)
next
  assume "list_all (\<lambda>(lv, v). now - of_int max_age \<le> v) (metrics (last_contact m))"
  then have "to_remove m (now - of_int max_age) = []"
    by (auto simp: to_remove_def list_all_iff filter_empty_conv)
  then show "cleanup_expired m max_age now = m"
    by (simp add: cleanup_expired_def)
qed

subsection \<open>Names and label names\<close>

lemma static_set_metrics:
  "name (soc (set_metrics m lv s c t lc)) = name (soc m)"
  "labelnames (soc (set_metrics m lv s c t lc)) = labelnames (soc m)"
  "name (charging (set_metrics m lv s c t lc)) = name (charging m)"
  "labelnames (charging (set_metrics m lv s c t lc)) = labelnames (charging m)"
  "name (temperature (set_metrics m lv s c t lc)) = name (temperature m)"
  "labelnames (temperature (set_metrics m lv s c t lc)) = labelnames (temperature m)"
  "name (last_contact (set_metrics m lv s c t lc)) = name (last_contact m)"
  "labelnames (last_contact (set_metrics m lv s c t lc)) = labelnames (last_contact m)"
  by (simp_all add: set_metrics_def)

lemma static_step:
  "name (soc (step m ev)) = name (soc m)"
  "labelnames (soc (step m ev)) = labelnames (soc m)"
  "name (charging (step m ev)) = name (charging m)"
  "labelnames (charging (step m ev)) = labelnames (charging m)"
  "name (temperature (step m ev)) = name (temperature m)"
  "labelnames (temperature (step m ev)) = labelnames (temperature m)"
  "name (last_contact (step m ev)) = name (last_contact m)"
  "labelnames (last_contact (step m ev)) = labelnames (last_contact m)"
  by (cases ev; simp add: datagramReceived_def static_set_metrics gauges_cleanup_expired foldl_remove
        split: sum.splits)+

lemma static_foldl_step:
  "name (soc (foldl step m evs)) = name (soc m)"
  "labelnames (soc (foldl step m evs)) = labelnames (soc m)"
  "name (charging (foldl step m evs)) = name (charging m)"
  "labelnames (charging (foldl step m evs)) = labelnames (charging m)"
  "name (temperature (foldl step m evs)) = name (temperature m)"
  "labelnames (temperature (foldl step m evs)) = labelnames (temperature m)"
  "name (last_contact (foldl step m evs)) = name (last_contact m)"
  "labelnames (last_contact (foldl step m evs)) = labelnames (last_contact m)"
  by (induction evs arbitrary: m) (simp_all add: static_step)

lemma static_run:
  "name (soc (run evs)) = ''soc''"
  "labelnames (soc (run evs)) = [''ip'', ''host'']"
  "name (charging (run evs)) = ''charging''"
  "labelnames (charging (run evs)) = [''ip'', ''host'']"
  "name (temperature (run evs)) = ''temperature''"
  "labelnames (temperature (run evs)) = [''ip'', ''host'']"
  "name (last_contact (run evs)) = ''last_contact''"
  "labelnames (last_contact (run evs)) = [''ip'', ''host'']"
  by (simp_all add: run_def static_foldl_step StateCollectorMetrics_init_def Gauge_init_def
        metric_labels_def)

lemma Gauge_collect_labels:
  "labelnames g = [''ip'', ''host''] \<Longrightarrow>
   list_all (\<lambda>(ls, v). map fst ls = [''ip'', ''host'']) (snd (Gauge_collect g))"
  by (auto simp: Gauge_collect_def list_all_iff)

subsection \<open>A concrete run\<close>

lemmas eval_defs =
  run_def datagramReceived_def cleanup_expired_def to_remove_def remove_labels_def remove_def
  set_metrics_def set_value_def labels_def report_labels_def host_id_def soc_value_def
  charging_value_def temperature_value_def protocol_version_def slice_bytes_def
  from_bytes_big_def str_def str_nat.simps digit_def StateCollectorMetrics_init_def
  Gauge_init_def metric_labels_def gauge_keys_def gauge_value_def device_state_def
  expired_def AList.delete_eq

text \<open>
  Two devices behind the same address report at clock readings 100 and 1000: host 42 with
  the payload \<open>01 00 2A 50 01 F6\<close>, host 43 with \<open>01 00 2B 3C 00 15\<close>.
\<close>

lemma two_devices_run:
  "run [Datagram [1, 0, 0x2A, 0x50, 1, 0xF6] (''10.0.0.1'', 1234) 100,
        Datagram [1, 0, 0x2B, 0x3C, 0, 0x15] (''10.0.0.1'', 1234) 1000] =
   \<lparr>soc = \<lparr>name = ''soc'', documentation = ''State of charge'', labelnames = [''ip'', ''host''],
            metrics = [((''10.0.0.1'', ''42''), 80), ((''10.0.0.1'', ''43''), 60)]\<rparr>,
    charging = \<lparr>name = ''charging'', documentation = ''Charging status'', labelnames = [''ip'', ''host''],
            metrics = [((''10.0.0.1'', ''42''), 1), ((''10.0.0.1'', ''43''), 0)]\<rparr>,
    temperature = \<lparr>name = ''temperature'', documentation = ''Temperature in celsius'', labelnames = [''ip'', ''host''],
            metrics = [((''10.0.0.1'', ''42''), - 10), ((''10.0.0.1'', ''43''), 21)]\<rparr>,
    last_contact = \<lparr>name = ''last_contact'', documentation = ''Last contact'', labelnames = [''ip'', ''host''],
            metrics = [((''10.0.0.1'', ''42''), 100), ((''10.0.0.1'', ''43''), 1000)]\<rparr>\<rparr>"
  by (simp add: eval_defs)

lemma example_payload_fields:
  "host_id [1, 0, 0x2A, 0x50, 1, 0xF6] = 42"
  "soc_value [1, 0, 0x2A, 0x50, 1, 0xF6] = 80"
  "charging_value [1, 0, 0x2A, 0x50, 1, 0xF6] = Inr 1"
  "temperature_value [1, 0, 0x2A, 0x50, 1, 0xF6] = - 10"
  "str 42 = ''42''"
  by (simp_all add: host_id_def soc_value_def charging_value_def temperature_value_def
        slice_bytes_def from_bytes_big_def str_def str_nat.simps digit_def)

text \<open>The same two devices after a cleanup at clock reading 1800 with maximal age 900.\<close>

lemma two_devices_first_cleanup:
  "cleanup_expired
     (run [Datagram [1, 0, 0x2A, 0x50, 1, 0xF6] (''10.0.0.1'', 1234) 100,
           Datagram [1, 0, 0x2B, 0x3C, 0, 0x15] (''10.0.0.1'', 1234) 1000]) 900 1800 =
   \<lparr>soc = \<lparr>name = ''soc'', documentation = ''State of charge'', labelnames = [''ip'', ''host''],
            metrics = [((''10.0.0.1'', ''43''), 60)]\<rparr>,
    charging = \<lparr>name = ''charging'', documentation = ''Charging status'', labelnames = [''ip'', ''host''],
            metrics = [((''10.0.0.1'', ''43''), 0)]\<rparr>,
    temperature = \<lparr>name = ''temperature'', documentation = ''Temperature in celsius'', labelnames = [''ip'', ''host''],
            metrics = [((''10.0.0.1'', ''43''), 21)]\<rparr>,
    last_contact = \<lparr>name = ''last_contact'', documentation = ''Last contact'', labelnames = [''ip'', ''host''],
            metrics = [((''10.0.0.1'', ''43''), 1000)]\<rparr>\<rparr>"
  by (simp add: two_devices_run cleanup_expired_def to_remove_def remove_labels_def remove_def
        AList.delete_eq)

section \<open>The properties of the specification\<close>

text \<open>
  C1. Whatever the sender's address, the metrics before and the clock reading, the payload
  \<open>01 00 2A 50 01 F6\<close> is accepted: its host identifier reads 42, its state of charge 80,
  its charging bit 1 and its temperature -10, and afterwards the entry of
  (source IP, 42) holds exactly these values, with the clock reading as last contact.
\<close>

theorem example_payload_decodes:
  "host_id [1, 0, 0x2A, 0x50, 1, 0xF6] = 42 \<and>
   soc_value [1, 0, 0x2A, 0x50, 1, 0xF6] = 80 \<and>
   charging_value [1, 0, 0x2A, 0x50, 1, 0xF6] = Inr 1 \<and>
   temperature_value [1, 0, 0x2A, 0x50, 1, 0xF6] = - 10 \<and>
   report_labels [1, 0, 0x2A, 0x50, 1, 0xF6] addr = (fst addr, ''42'') \<and>
   fst (datagramReceived m [1, 0, 0x2A, 0x50, 1, 0xF6] addr now) = None \<and>
   device_state (snd (datagramReceived m [1, 0, 0x2A, 0x50, 1, 0xF6] addr now)) (fst addr, ''42'') =
     (Some 80, Some 1, Some (- 10), Some now)"
proof -
  let ?d = "[1, 0, 0x2A, 0x50, 1, 0xF6] :: byte list"
  have l: "report_labels ?d addr = (fst addr, ''42'')"
    by (simp add: report_labels_def example_payload_fields)
  have "datagramReceived m ?d addr now = (None, set_metrics m (fst addr, ''42'') 80 1 (- 10) now)"
    by (simp add: datagramReceived_def protocol_version_Cons example_payload_fields l)
  then show ?thesis
    by (simp add: example_payload_fields l device_state_set_metrics)
qed

text \<open>
  C2. On a table whose last-contact dictionary holds each key once, the cleanup removes
  exactly the expired devices: afterwards a device whose last contact was strictly before
  \<open>now - max_age\<close> has none of its four fields, and every other device has the four
  fields it had before.
\<close>

theorem cleanup_expired_sweep:
  assumes "distinct (gauge_keys (last_contact m))"
  shows "device_state (cleanup_expired m max_age now) lv =
           (if expired m max_age now lv then (None, None, None, None) else device_state m lv)"
  using to_remove_expired [OF assms, of lv now max_age]
  by (simp add: device_state_def gauges_cleanup_expired gauge_value_foldl_remove)

theorem cleanup_expired_sweep_witness:
  "distinct (gauge_keys (last_contact
      (run [Datagram [1, 0, 0x2A, 0x50, 1, 0xF6] (''10.0.0.1'', 1234) 100,
            Datagram [1, 0, 0x2B, 0x3C, 0, 0x15] (''10.0.0.1'', 1234) 1000]))) \<and>
   device_state (cleanup_expired
      (run [Datagram [1, 0, 0x2A, 0x50, 1, 0xF6] (''10.0.0.1'', 1234) 100,
            Datagram [1, 0, 0x2B, 0x3C, 0, 0x15] (''10.0.0.1'', 1234) 1000]) 900 1900)
      (''10.0.0.1'', ''42'') = (None, None, None, None) \<and>
   device_state (cleanup_expired
      (run [Datagram [1, 0, 0x2A, 0x50, 1, 0xF6] (''10.0.0.1'', 1234) 100,
            Datagram [1, 0, 0x2B, 0x3C, 0, 0x15] (''10.0.0.1'', 1234) 1000]) 900 1900)
      (''10.0.0.1'', ''43'') = (Some 60, Some 0, Some 21, Some 1000)"
proof -
  let ?m = "run [Datagram [1, 0, 0x2A, 0x50, 1, 0xF6] (''10.0.0.1'', 1234) 100,
                 Datagram [1, 0, 0x2B, 0x3C, 0, 0x15] (''10.0.0.1'', 1234) 1000]"
  have d: "distinct (gauge_keys (last_contact ?m))"
    by (simp add: two_devices_run gauge_keys_def)
  show ?thesis
    using d cleanup_expired_sweep [OF d, of 900 1900 "(''10.0.0.1'', ''42'')"]
      cleanup_expired_sweep [OF d, of 900 1900 "(''10.0.0.1'', ''43'')"]
    by (simp add: two_devices_run expired_def gauge_value_def device_state_def)
qed

text \<open>
  C5. A datagram whose first byte is not 1 ends with the message of an unsupported
  protocol version, whatever follows the first byte (nothing may follow), and the metrics
  are the ones before; the empty datagram ends with the message of an invalid length,
  the metrics unchanged as well.
\<close>

theorem unsupported_version_rejected:
  "(b \<noteq> 1 \<longrightarrow> datagramReceived m (b # rest) addr now = (Some Unsupported_protocol_version, m)) \<and>
   datagramReceived m [] addr now = (Some Invalid_data_length, m)"
  by (simp add: datagramReceived_def protocol_version_one)

theorem unsupported_version_rejected_witness:
  "(2 :: byte) \<noteq> 1 \<and>
   datagramReceived StateCollectorMetrics_init [2, 0, 0x2A, 0x50, 1, 0xF6] (''10.0.0.1'', 1234) 100 =
     (Some Unsupported_protocol_version, StateCollectorMetrics_init) \<and>
   datagramReceived StateCollectorMetrics_init [2] (''10.0.0.1'', 1234) 100 =
     (Some Unsupported_protocol_version, StateCollectorMetrics_init) \<and>
   datagramReceived StateCollectorMetrics_init [] (''10.0.0.1'', 1234) 100 =
     (Some Invalid_data_length, StateCollectorMetrics_init)"
  using unsupported_version_rejected [of 2 StateCollectorMetrics_init "[0, 0x2A, 0x50, 1, 0xF6]" "(''10.0.0.1'', 1234)" 100]
    unsupported_version_rejected [of 2 StateCollectorMetrics_init "[]" "(''10.0.0.1'', 1234)" 100]
  by simp

text \<open>
  C6, as the code has it. Each cleanup reads the clock itself. After a cleanup at clock
  reading \<open>now\<close>, a second one at \<open>now'\<close> with the same maximal age and no datagram in
  between removes nothing exactly when no entry left by the first has its last contact
  strictly before \<open>now' - max_age\<close>; in particular it removes nothing when it reads the
  same clock value as the first.
\<close>

theorem cleanup_expired_again:
  "(cleanup_expired (cleanup_expired m max_age now) max_age now' = cleanup_expired m max_age now) =
     list_all (\<lambda>(lv, v). now' - of_int max_age \<le> v)
       (metrics (last_contact (cleanup_expired m max_age now))) \<and>
   cleanup_expired (cleanup_expired m max_age now) max_age now = cleanup_expired m max_age now"
proof -
  have "to_remove (cleanup_expired m max_age now) (now - of_int max_age) = []"
    by (rule to_remove_cleanup_expired)
  then have "cleanup_expired (cleanup_expired m max_age now) max_age now = cleanup_expired m max_age now"
    by (simp add: cleanup_expired_def [of "cleanup_expired m max_age now"])
  then show ?thesis
    by (simp add: cleanup_expired_id_iff [of "cleanup_expired m max_age now"])
qed

theorem cleanup_expired_again_witness:
  "list_all (\<lambda>(lv, v). 1850 - of_int 900 \<le> v)
     (metrics (last_contact (cleanup_expired
        (run [Datagram [1, 0, 0x2A, 0x50, 1, 0xF6] (''10.0.0.1'', 1234) 100,
              Datagram [1, 0, 0x2B, 0x3C, 0, 0x15] (''10.0.0.1'', 1234) 1000]) 900 1800))) \<and>
   cleanup_expired (cleanup_expired
        (run [Datagram [1, 0, 0x2A, 0x50, 1, 0xF6] (''10.0.0.1'', 1234) 100,
              Datagram [1, 0, 0x2B, 0x3C, 0, 0x15] (''10.0.0.1'', 1234) 1000]) 900 1800) 900 1850 =
     cleanup_expired
        (run [Datagram [1, 0, 0x2A, 0x50, 1, 0xF6] (''10.0.0.1'', 1234) 100,
              Datagram [1, 0, 0x2B, 0x3C, 0, 0x15] (''10.0.0.1'', 1234) 1000]) 900 1800 \<and>
   device_state (cleanup_expired (cleanup_expired
        (run [Datagram [1, 0, 0x2A, 0x50, 1, 0xF6] (''10.0.0.1'', 1234) 100,
              Datagram [1, 0, 0x2B, 0x3C, 0, 0x15] (''10.0.0.1'', 1234) 1000]) 900 1800) 900 1850)
     (''10.0.0.1'', ''43'') = (Some 60, Some 0, Some 21, Some 1000)"
proof -
  let ?m = "run [Datagram [1, 0, 0x2A, 0x50, 1, 0xF6] (''10.0.0.1'', 1234) 100,
                 Datagram [1, 0, 0x2B, 0x3C, 0, 0x15] (''10.0.0.1'', 1234) 1000]"
  have a: "list_all (\<lambda>(lv, v). 1850 - of_int 900 \<le> v)
     (metrics (last_contact (cleanup_expired ?m 900 1800)))"
    by (simp add: two_devices_first_cleanup)
  with cleanup_expired_again [of ?m 900 1800 1850]
  have e: "cleanup_expired (cleanup_expired ?m 900 1800) 900 1850 = cleanup_expired ?m 900 1800"
    by blast
  have "device_state (cleanup_expired ?m 900 1800) (''10.0.0.1'', ''43'') =
      (Some 60, Some 0, Some 21, Some 1000)"
    by (simp add: two_devices_first_cleanup device_state_def gauge_value_def)
  with a e show ?thesis
    by simp
qed

text \<open>
  C6, as stated, fails: with last contacts at 100 and 1000 and maximal age 900, a cleanup
  at clock reading 1000 keeps the device last seen at 100, and the cleanup right after it,
  at clock reading 1000.5, removes that device.
\<close>

theorem cleanup_expired_twice_counterexample:
  "device_state (cleanup_expired
        (run [Datagram [1, 0, 0x2A, 0x50, 1, 0xF6] (''10.0.0.1'', 1234) 100,
              Datagram [1, 0, 0x2B, 0x3C, 0, 0x15] (''10.0.0.1'', 1234) 1000]) 900 1000)
     (''10.0.0.1'', ''42'') = (Some 80, Some 1, Some (- 10), Some 100) \<and>
   device_state (cleanup_expired (cleanup_expired
        (run [Datagram [1, 0, 0x2A, 0x50, 1, 0xF6] (''10.0.0.1'', 1234) 100,
              Datagram [1, 0, 0x2B, 0x3C, 0, 0x15] (''10.0.0.1'', 1234) 1000]) 900 1000) 900 (2001 / 2))
     (''10.0.0.1'', ''42'') = (None, None, None, None) \<and>
   cleanup_expired (cleanup_expired
        (run [Datagram [1, 0, 0x2A, 0x50, 1, 0xF6] (''10.0.0.1'', 1234) 100,
              Datagram [1, 0, 0x2B, 0x3C, 0, 0x15] (''10.0.0.1'', 1234) 1000]) 900 1000) 900 (2001 / 2) \<noteq>
     cleanup_expired
        (run [Datagram [1, 0, 0x2A, 0x50, 1, 0xF6] (''10.0.0.1'', 1234) 100,
              Datagram [1, 0, 0x2B, 0x3C, 0, 0x15] (''10.0.0.1'', 1234) 1000]) 900 1000"
proof -
  let ?m = "run [Datagram [1, 0, 0x2A, 0x50, 1, 0xF6] (''10.0.0.1'', 1234) 100,
                 Datagram [1, 0, 0x2B, 0x3C, 0, 0x15] (''10.0.0.1'', 1234) 1000]"
  have first: "cleanup_expired ?m 900 1000 = ?m"
    by (simp add: two_devices_run cleanup_expired_def to_remove_def)
  have a: "device_state ?m (''10.0.0.1'', ''42'') = (Some 80, Some 1, Some (- 10), Some 100)"
    by (simp add: two_devices_run device_state_def gauge_value_def)
  have b: "device_state (cleanup_expired ?m 900 (2001 / 2)) (''10.0.0.1'', ''42'') =
      (None, None, None, None)"
    by (simp add: two_devices_run cleanup_expired_def to_remove_def remove_labels_def remove_def
          AList.delete_eq device_state_def gauge_value_def)
  from a b have "cleanup_expired ?m 900 (2001 / 2) \<noteq> ?m"
    by auto
  with a b show ?thesis
    by (simp only: first) simp
qed

text \<open>
  C10. A datagram of exactly five bytes whose first byte is 1 is accepted. Its host
  identifier is read from bytes 1 and 2, its state of charge from byte 3, its charging
  bit from byte 4, and the empty slice at offset 5 reads as temperature 0; the entry
  stored for the sender holds these values.
\<close>

theorem five_byte_datagram_accepted:
  "fst (datagramReceived m [1, b1, b2, b3, b4] addr now) = None \<and>
   host_id [1, b1, b2, b3, b4] = uint b1 * 256 + uint b2 \<and>
   temperature_value [1, b1, b2, b3, b4] = 0 \<and>
   device_state (snd (datagramReceived m [1, b1, b2, b3, b4] addr now))
       (fst addr, str (uint b1 * 256 + uint b2)) =
     (Some (of_int (uint b3)), Some (of_int (uint b4 AND 1)), Some 0, Some now)"
proof -
  let ?d = "[1, b1, b2, b3, b4]"
  have f: "host_id ?d = uint b1 * 256 + uint b2" "soc_value ?d = uint b3"
    "charging_value ?d = Inr (uint b4 AND 1)" "temperature_value ?d = 0"
    by (simp_all add: host_id_def soc_value_def charging_value_def temperature_value_def
          slice_bytes_def from_bytes_big_def)
  have "datagramReceived m ?d addr now =
          (None, set_metrics m (fst addr, str (uint b1 * 256 + uint b2)) (uint b3) (uint b4 AND 1) 0 now)"
    by (simp add: datagramReceived_def protocol_version_Cons f report_labels_def)
  then show ?thesis
    by (simp add: f device_state_set_metrics)
qed

text \<open>
  C3. Two datagrams are accepted one after the other and carry the same label values.
  On a table whose dictionaries hold each key once, the device then has exactly one entry
  in each of the four gauges, and its four fields are the ones of the second datagram,
  with the second clock reading as last contact.
\<close>

theorem last_report_wins:
  assumes "dict_keys_unique m"
    and "datagramReceived m d1 a1 t1 = (None, m1)"
    and "datagramReceived m1 d2 a2 t2 = (None, m2)"
    and "report_labels d1 a1 = report_labels d2 a2"
  shows "device_state m2 (report_labels d1 a1) = reported_state d2 t2 \<and>
         count_list (gauge_keys (soc m2)) (report_labels d1 a1) = 1 \<and>
         count_list (gauge_keys (charging m2)) (report_labels d1 a1) = 1 \<and>
         count_list (gauge_keys (temperature m2)) (report_labels d1 a1) = 1 \<and>
         count_list (gauge_keys (last_contact m2)) (report_labels d1 a1) = 1"
proof -
  let ?lv = "report_labels d1 a1"
  from assms(2) have "m1 = snd (datagramReceived m d1 a1 t1)" by simp
  with assms(1) have u1: "dict_keys_unique m1"
    by (simp add: dict_keys_unique_datagramReceived)
  from assms(3) have "m2 = snd (datagramReceived m1 d2 a2 t2)" by simp
  with u1 have u2: "dict_keys_unique m2"
    by (simp add: dict_keys_unique_datagramReceived)
  from assms(3,4) have mem:
    "?lv \<in> set (gauge_keys (soc m2))" "?lv \<in> set (gauge_keys (charging m2))"
    "?lv \<in> set (gauge_keys (temperature m2))" "?lv \<in> set (gauge_keys (last_contact m2))"
    by (simp_all add: datagramReceived_None labels_in_set_metrics)
  have "device_state m2 ?lv = reported_state d2 t2"
    using device_state_datagramReceived [OF assms(3), of ?lv] assms(4) by simp
  with u2 mem show ?thesis
    by (simp add: dict_keys_unique_def count_list_distinct)
qed

theorem last_report_wins_witness:
  "dict_keys_unique StateCollectorMetrics_init \<and>
   fst (datagramReceived StateCollectorMetrics_init [1, 0, 0x2A, 0x50, 1, 0xF6] (''10.0.0.1'', 1234) 100) = None \<and>
   fst (datagramReceived
          (snd (datagramReceived StateCollectorMetrics_init [1, 0, 0x2A, 0x50, 1, 0xF6] (''10.0.0.1'', 1234) 100))
          [1, 0, 0x2A, 0x3C, 0, 0x15] (''10.0.0.1'', 4321) 200) = None \<and>
   report_labels [1, 0, 0x2A, 0x50, 1, 0xF6] (''10.0.0.1'', 1234) =
     report_labels [1, 0, 0x2A, 0x3C, 0, 0x15] (''10.0.0.1'', 4321) \<and>
   device_state
     (snd (datagramReceived
          (snd (datagramReceived StateCollectorMetrics_init [1, 0, 0x2A, 0x50, 1, 0xF6] (''10.0.0.1'', 1234) 100))
          [1, 0, 0x2A, 0x3C, 0, 0x15] (''10.0.0.1'', 4321) 200))
     (''10.0.0.1'', ''42'') = (Some 60, Some 0, Some 21, Some 200) \<and>
   count_list (gauge_keys (soc
     (snd (datagramReceived
          (snd (datagramReceived StateCollectorMetrics_init [1, 0, 0x2A, 0x50, 1, 0xF6] (''10.0.0.1'', 1234) 100))
          [1, 0, 0x2A, 0x3C, 0, 0x15] (''10.0.0.1'', 4321) 200)))) (''10.0.0.1'', ''42'') = 1"
proof -
  let ?d1 = "[1, 0, 0x2A, 0x50, 1, 0xF6] :: byte list"
  let ?d2 = "[1, 0, 0x2A, 0x3C, 0, 0x15] :: byte list"
  let ?m1 = "snd (datagramReceived StateCollectorMetrics_init ?d1 (''10.0.0.1'', 1234) 100)"
  let ?m2 = "snd (datagramReceived ?m1 ?d2 (''10.0.0.1'', 4321) 200)"
  have h0: "dict_keys_unique StateCollectorMetrics_init"
    by (simp add: dict_keys_unique_def gauge_keys_def StateCollectorMetrics_init_def Gauge_init_def)
  have h1: "datagramReceived StateCollectorMetrics_init ?d1 (''10.0.0.1'', 1234) 100 = (None, ?m1)"
    by (simp add: datagramReceived_accept)
  have h2: "datagramReceived ?m1 ?d2 (''10.0.0.1'', 4321) 200 = (None, ?m2)"
    by (simp add: datagramReceived_accept)
  have l1: "report_labels ?d1 (''10.0.0.1'', 1234) = (''10.0.0.1'', ''42'')"
    by (simp add: report_labels_def example_payload_fields)
  have l2: "report_labels ?d2 (''10.0.0.1'', 4321) = (''10.0.0.1'', ''42'')"
    by (simp add: report_labels_def host_id_def slice_bytes_def from_bytes_big_def
          example_payload_fields)
  have h3: "report_labels ?d1 (''10.0.0.1'', 1234) = report_labels ?d2 (''10.0.0.1'', 4321)"
    by (simp add: l1 l2)
  have f: "fst (datagramReceived StateCollectorMetrics_init ?d1 (''10.0.0.1'', 1234) 100) = None"
    "fst (datagramReceived ?m1 ?d2 (''10.0.0.1'', 4321) 200) = None"
    by (simp_all add: datagramReceived_accept)
  have r: "reported_state ?d2 200 = (Some 60, Some 0, Some 21, Some 200)"
    by (simp add: reported_state_def soc_value_def temperature_value_def slice_bytes_def
          from_bytes_big_def)
  show ?thesis
    using h0 last_report_wins [OF h0 h1 h2 h3]
    by (simp add: l1 l2 r f)
qed

text \<open>
  C4. What the code does with a datagram of version 1 that is shorter than six bytes.
  With four bytes the read of \<open>data[4]\<close> raises and the metrics are the ones before.
  With five bytes nothing raises: the report is stored, with temperature 0, for a device
  that had no entry before.
\<close>

theorem short_datagram_handling:
  "datagramReceived StateCollectorMetrics_init [1, 0, 0x2A, 0x50] (''10.0.0.1'', 1234) 100 =
     (Some IndexError, StateCollectorMetrics_init) \<and>
   fst (datagramReceived StateCollectorMetrics_init [1, 0, 0x2A, 0x50, 1] (''10.0.0.1'', 1234) 100) = None \<and>
   device_state (snd (datagramReceived StateCollectorMetrics_init [1, 0, 0x2A, 0x50, 1] (''10.0.0.1'', 1234) 100))
     (''10.0.0.1'', ''42'') = (Some 80, Some 1, Some 0, Some 100) \<and>
   device_state StateCollectorMetrics_init (''10.0.0.1'', ''42'') = (None, None, None, None)"
  by (simp add: eval_defs)

text \<open>
  C7. After any run of datagrams and cleanups from the empty metrics, the four gauges hold
  the same label tuples: a device has all four of its fields or none of them.
\<close>

theorem four_gauges_same_keys:
  "keys_aligned (run evs) \<and>
   set (gauge_keys (soc (run evs))) = set (gauge_keys (last_contact (run evs))) \<and>
   set (gauge_keys (charging (run evs))) = set (gauge_keys (last_contact (run evs))) \<and>
   set (gauge_keys (temperature (run evs))) = set (gauge_keys (last_contact (run evs))) \<and>
   (device_state (run evs) lv = (None, None, None, None) \<or>
    (\<exists>s c t l. device_state (run evs) lv = (Some s, Some c, Some t, Some l)))"
proof -
  have a: "keys_aligned (run evs)"
    unfolding run_def by (rule keys_aligned_foldl_step [OF keys_aligned_init])
  then have k: "gauge_keys (soc (run evs)) = gauge_keys (last_contact (run evs))"
    "gauge_keys (charging (run evs)) = gauge_keys (last_contact (run evs))"
    "gauge_keys (temperature (run evs)) = gauge_keys (last_contact (run evs))"
    by (simp_all add: keys_aligned_def)
  have "device_state (run evs) lv = (None, None, None, None) \<or>
    (\<exists>s c t l. device_state (run evs) lv = (Some s, Some c, Some t, Some l))"
  proof (cases "lv \<in> set (gauge_keys (last_contact (run evs)))")
    case True
    with k show ?thesis
      using gauge_value_None_iff [of "soc (run evs)" lv] gauge_value_None_iff [of "charging (run evs)" lv]
        gauge_value_None_iff [of "temperature (run evs)" lv] gauge_value_None_iff [of "last_contact (run evs)" lv]
      by (auto simp: device_state_def)
  next
    case False
    with k show ?thesis
      by (simp add: device_state_def gauge_value_None_iff)
  qed
  with a k show ?thesis by simp
qed

text \<open>
  C8. Two datagrams accepted one after the other. Each is stored under its label values,
  the host identifier being a 16-bit number. The two label values are equal exactly when
  the source IP and the host identifier both agree; when they differ, the entry of the
  first datagram still holds the first report after the second is stored.
\<close>

theorem keyed_by_ip_and_host:
  assumes "datagramReceived m d1 a1 t1 = (None, m1)"
    and "datagramReceived m1 d2 a2 t2 = (None, m2)"
  shows "0 \<le> host_id d1 \<and> host_id d1 < 65536 \<and> 0 \<le> host_id d2 \<and> host_id d2 < 65536 \<and>
         device_state m1 (report_labels d1 a1) = reported_state d1 t1 \<and>
         device_state m2 (report_labels d2 a2) = reported_state d2 t2 \<and>
         (report_labels d1 a1 = report_labels d2 a2) = (fst a1 = fst a2 \<and> host_id d1 = host_id d2) \<and>
         (if fst a1 = fst a2 \<and> host_id d1 = host_id d2
          then report_labels d1 a1 = report_labels d2 a2
          else report_labels d1 a1 \<noteq> report_labels d2 a2 \<and>
               device_state m2 (report_labels d1 a1) = reported_state d1 t1)"
  using device_state_datagramReceived [OF assms(1), of "report_labels d1 a1"]
    device_state_datagramReceived [OF assms(2), of "report_labels d1 a1"]
    device_state_datagramReceived [OF assms(2), of "report_labels d2 a2"]
    host_id_range [of d1] host_id_range [of d2]
  by (simp add: report_labels_eq_iff)

theorem keyed_by_ip_and_host_witness:
  "fst (datagramReceived StateCollectorMetrics_init [1, 0, 0x2A, 0x50, 1, 0xF6] (''10.0.0.1'', 1234) 100) = None \<and>
   fst (datagramReceived
          (snd (datagramReceived StateCollectorMetrics_init [1, 0, 0x2A, 0x50, 1, 0xF6] (''10.0.0.1'', 1234) 100))
          [1, 0, 0x2A, 0x3C, 0, 0x15] (''10.0.0.2'', 1234) 200) = None \<and>
   host_id [1, 0, 0x2A, 0x50, 1, 0xF6] = host_id [1, 0, 0x2A, 0x3C, 0, 0x15] \<and>
   report_labels [1, 0, 0x2A, 0x50, 1, 0xF6] (''10.0.0.1'', 1234) \<noteq>
     report_labels [1, 0, 0x2A, 0x3C, 0, 0x15] (''10.0.0.2'', 1234) \<and>
   device_state
     (snd (datagramReceived
          (snd (datagramReceived StateCollectorMetrics_init [1, 0, 0x2A, 0x50, 1, 0xF6] (''10.0.0.1'', 1234) 100))
          [1, 0, 0x2A, 0x3C, 0, 0x15] (''10.0.0.2'', 1234) 200))
     (''10.0.0.1'', ''42'') = (Some 80, Some 1, Some (- 10), Some 100) \<and>
   device_state
     (snd (datagramReceived
          (snd (datagramReceived StateCollectorMetrics_init [1, 0, 0x2A, 0x50, 1, 0xF6] (''10.0.0.1'', 1234) 100))
          [1, 0, 0x2A, 0x3C, 0, 0x15] (''10.0.0.2'', 1234) 200))
     (''10.0.0.2'', ''42'') = (Some 60, Some 0, Some 21, Some 200)"
proof -
  let ?d1 = "[1, 0, 0x2A, 0x50, 1, 0xF6] :: byte list"
  let ?d2 = "[1, 0, 0x2A, 0x3C, 0, 0x15] :: byte list"
  let ?m1 = "snd (datagramReceived StateCollectorMetrics_init ?d1 (''10.0.0.1'', 1234) 100)"
  let ?m2 = "snd (datagramReceived ?m1 ?d2 (''10.0.0.2'', 1234) 200)"
  have h1: "datagramReceived StateCollectorMetrics_init ?d1 (''10.0.0.1'', 1234) 100 = (None, ?m1)"
    by (simp add: datagramReceived_accept)
  have h2: "datagramReceived ?m1 ?d2 (''10.0.0.2'', 1234) 200 = (None, ?m2)"
    by (simp add: datagramReceived_accept)
  have hid: "host_id ?d2 = 42"
    by (simp add: host_id_def slice_bytes_def from_bytes_big_def)
  have l: "report_labels ?d1 (''10.0.0.1'', 1234) = (''10.0.0.1'', ''42'')"
    "report_labels ?d2 (''10.0.0.2'', 1234) = (''10.0.0.2'', ''42'')"
    by (simp_all add: report_labels_def example_payload_fields hid)
  have r: "reported_state ?d1 100 = (Some 80, Some 1, Some (- 10), Some 100)"
    "reported_state ?d2 200 = (Some 60, Some 0, Some 21, Some 200)"
    by (simp_all add: reported_state_def soc_value_def temperature_value_def slice_bytes_def
          from_bytes_big_def)
  have f: "fst (datagramReceived StateCollectorMetrics_init ?d1 (''10.0.0.1'', 1234) 100) = None"
    "fst (datagramReceived ?m1 ?d2 (''10.0.0.2'', 1234) 200) = None"
    by (simp_all add: datagramReceived_accept)
  show ?thesis
    using keyed_by_ip_and_host [OF h1 h2]
    by (simp add: l r hid f example_payload_fields)
qed

text \<open>
  C9, as the code has it. In every run the scrape serves, behind the families of the
  library's own collectors, exactly four metric families, named \<open>soc\<close>, \<open>charging\<close>,
  \<open>temperature\<close> and \<open>last_contact\<close>, and every sample of these four carries exactly the
  two labels \<open>ip\<close> and \<open>host\<close>.
\<close>

theorem metric_names_and_labels:
  "take (length library_families) (registry_collect library_families (run evs)) = library_families \<and>
   map fst (drop (length library_families) (registry_collect library_families (run evs))) =
     [''soc'', ''charging'', ''temperature'', ''last_contact''] \<and>
   list_all (\<lambda>(n, ss). list_all (\<lambda>(ls, v). map fst ls = [''ip'', ''host'']) ss)
     (drop (length library_families) (registry_collect library_families (run evs)))"
proof -
  have d: "drop (length library_families) (registry_collect library_families (run evs)) =
      map Gauge_collect [soc (run evs), charging (run evs), temperature (run evs), last_contact (run evs)]"
    by (simp add: registry_collect_def)
  have n: "fst (Gauge_collect g) = name g" for g
    by (simp add: Gauge_collect_def)
  have l: "list_all (\<lambda>(ls, v). map fst ls = [''ip'', ''host'']) (snd (Gauge_collect g))"
    if "labelnames g = [''ip'', ''host'']" for g
    using that by (rule Gauge_collect_labels)
  have "take (length library_families) (registry_collect library_families (run evs)) = library_families"
    by (simp add: registry_collect_def)
  then show ?thesis
    unfolding d by (simp add: n l static_run case_prod_beta)
qed

text \<open>
  C9, as stated, fails. After the example payload, and with no family of the library's
  own, the four families served are not named \<open>state-of-charge\<close>, \<open>charging-status\<close>,
  \<open>temperature-celsius\<close> and \<open>last-contact-epoch-seconds\<close>. With the library's
  \<open>python_info\<close> family in the registry, the scrape serves five families, one of them
  with other labels than \<open>ip\<close> and \<open>host\<close>.
\<close>

theorem metric_names_counterexample:
  "map fst (registry_collect [] (run [Datagram [1, 0, 0x2A, 0x50, 1, 0xF6] (''10.0.0.1'', 1234) 100])) =
     [''soc'', ''charging'', ''temperature'', ''last_contact''] \<and>
   map fst (registry_collect [] (run [Datagram [1, 0, 0x2A, 0x50, 1, 0xF6] (''10.0.0.1'', 1234) 100])) \<noteq>
     [''state-of-charge'', ''charging-status'', ''temperature-celsius'', ''last-contact-epoch-seconds''] \<and>
   registry_collect
     [(''python_info'', [([(''implementation'', ''CPython''), (''major'', ''3''), (''minor'', ''11''),
                          (''patchlevel'', ''4''), (''version'', ''3.11.4'')], 1)])]
     (run [Datagram [1, 0, 0x2A, 0x50, 1, 0xF6] (''10.0.0.1'', 1234) 100]) =
     [(''python_info'', [([(''implementation'', ''CPython''), (''major'', ''3''), (''minor'', ''11''),
                          (''patchlevel'', ''4''), (''version'', ''3.11.4'')], 1)]),
      (''soc'', [([(''ip'', ''10.0.0.1''), (''host'', ''42'')], 80)]),
      (''charging'', [([(''ip'', ''10.0.0.1''), (''host'', ''42'')], 1)]),
      (''temperature'', [([(''ip'', ''10.0.0.1''), (''host'', ''42'')], - 10)]),
      (''last_contact'', [([(''ip'', ''10.0.0.1''), (''host'', ''42'')], 100)])]"
  by (simp add: eval_defs registry_collect_def Gauge_collect_def)


end
